theory Spec2Isabelle
  imports Complex_Main "HOL-Library.Word"
begin

section \<open>Numbers, vectors and matrices\<close>

text \<open>
  The SDK's \<^verbatim>\<open>Float\<close> is an IEEE 754 double. The model keeps what the generator's
  arithmetic can observe of it: a finite value (rounding and overflow of finite results are
  not modelled, a finite value is a real number), the two infinities and NaN. Signed zeros are
  not told apart; the only divisors of the generator are converted integers, whose zero is
  \<^verbatim>\<open>+0.0\<close>.
\<close>

datatype Float = Fin real | PInf | NInf | NaN

fun fneg :: "Float \<Rightarrow> Float" where
  "fneg (Fin a) = Fin (- a)"
| "fneg PInf = NInf"
| "fneg NInf = PInf"
| "fneg NaN = NaN"

fun fadd :: "Float \<Rightarrow> Float \<Rightarrow> Float" where
  "fadd NaN _ = NaN"
| "fadd _ NaN = NaN"
| "fadd (Fin a) (Fin b) = Fin (a + b)"
| "fadd PInf NInf = NaN"
| "fadd NInf PInf = NaN"
| "fadd PInf _ = PInf"
| "fadd NInf _ = NInf"
| "fadd (Fin a) PInf = PInf"
| "fadd (Fin a) NInf = NInf"

text \<open>The sign of an infinite product: \<open>inf_signed True\<close> is \<^verbatim>\<open>+inf\<close>.\<close>

definition inf_signed :: "bool \<Rightarrow> Float" where
  "inf_signed pos = (if pos then PInf else NInf)"

fun fmul :: "Float \<Rightarrow> Float \<Rightarrow> Float" where
  "fmul NaN _ = NaN"
| "fmul _ NaN = NaN"
| "fmul (Fin a) (Fin b) = Fin (a * b)"
| "fmul PInf PInf = PInf"
| "fmul PInf NInf = NInf"
| "fmul NInf PInf = NInf"
| "fmul NInf NInf = PInf"
| "fmul PInf (Fin b) = (if b = 0 then NaN else inf_signed (0 < b))"
| "fmul NInf (Fin b) = (if b = 0 then NaN else inf_signed (b < 0))"
| "fmul (Fin a) PInf = (if a = 0 then NaN else inf_signed (0 < a))"
| "fmul (Fin a) NInf = (if a = 0 then NaN else inf_signed (a < 0))"

text \<open>
  Division. A finite, non-zero dividend over zero is an infinity, zero over zero is NaN:
  nothing traps.
\<close>

fun fdiv :: "Float \<Rightarrow> Float \<Rightarrow> Float" where
  "fdiv NaN _ = NaN"
| "fdiv _ NaN = NaN"
| "fdiv (Fin a) (Fin b) =
     (if b = 0 then (if a = 0 then NaN else inf_signed (0 < a)) else Fin (a / b))"
| "fdiv (Fin a) PInf = Fin 0"
| "fdiv (Fin a) NInf = Fin 0"
| "fdiv PInf (Fin b) = inf_signed (0 \<le> b)"
| "fdiv NInf (Fin b) = inf_signed (b < 0)"
| "fdiv PInf _ = NaN"
| "fdiv NInf _ = NaN"

text \<open>The comparison \<^verbatim>\<open>==\<close> of two doubles: NaN equals nothing, itself included.\<close>

fun feq :: "Float \<Rightarrow> Float \<Rightarrow> bool" where
  "feq NaN _ = False"
| "feq _ NaN = False"
| "feq a b = (a = b)"

text \<open>The conversion \<^verbatim>\<open>(Float)n\<close> of an \<^verbatim>\<open>Int32\<close>, which is exact.\<close>

definition Float_of_Int32 :: "int \<Rightarrow> Float" where
  "Float_of_Int32 n = Fin (of_int n)"

text \<open>
  The SDK's \<^verbatim>\<open>Vector\<close>, with its components \<^verbatim>\<open>x\<close>, \<^verbatim>\<open>y\<close> and \<^verbatim>\<open>z\<close>, its
  constructor, and its \<^verbatim>\<open>Vector + Vector\<close>, \<^verbatim>\<open>Vector * Float\<close> and \<^verbatim>\<open>Cross\<close>.
\<close>

record Vector =
  vx :: Float
  vy :: Float
  vz :: Float

definition Vector_xyz :: "Float \<Rightarrow> Float \<Rightarrow> Float \<Rightarrow> Vector" where
  "Vector_xyz a b c = \<lparr>vx = a, vy = b, vz = c\<rparr>"

definition Vector_add :: "Vector \<Rightarrow> Vector \<Rightarrow> Vector" where
  "Vector_add a b = \<lparr>vx = fadd (vx a) (vx b), vy = fadd (vy a) (vy b), vz = fadd (vz a) (vz b)\<rparr>"

definition Vector_scale :: "Vector \<Rightarrow> Float \<Rightarrow> Vector" where
  "Vector_scale a s = \<lparr>vx = fmul (vx a) s, vy = fmul (vy a) s, vz = fmul (vz a) s\<rparr>"

definition Cross :: "Vector \<Rightarrow> Vector \<Rightarrow> Vector" where
  "Cross a b =
     \<lparr>vx = fadd (fmul (vy a) (vz b)) (fneg (fmul (vz a) (vy b))),
      vy = fadd (fmul (vz a) (vx b)) (fneg (fmul (vx a) (vz b))),
      vz = fadd (fmul (vx a) (vy b)) (fneg (fmul (vy a) (vx b)))\<rparr>"

text \<open>The SDK's \<^verbatim>\<open>Matrix\<close>: an offset and three axes.\<close>

record Matrix =
  off :: Vector
  v1 :: Vector
  v2 :: Vector
  v3 :: Vector

text \<open>The default constructor \<^verbatim>\<open>Matrix()\<close> is the unit matrix.\<close>

definition Matrix_unit :: Matrix where
  "Matrix_unit =
     \<lparr>off = Vector_xyz (Fin 0) (Fin 0) (Fin 0),
      v1 = Vector_xyz (Fin 1) (Fin 0) (Fin 0),
      v2 = Vector_xyz (Fin 0) (Fin 1) (Fin 0),
      v3 = Vector_xyz (Fin 0) (Fin 0) (Fin 1)\<rparr>"

text \<open>
  The product \<^verbatim>\<open>m1 * m2\<close> of two affine matrices: \<open>m2\<close> is applied first.
\<close>

definition Matrix_apply :: "Matrix \<Rightarrow> Vector \<Rightarrow> Vector" where
  "Matrix_apply m v =
     Vector_add (Vector_add (Vector_scale (v1 m) (vx v)) (Vector_scale (v2 m) (vy v)))
       (Vector_scale (v3 m) (vz v))"

definition Matrix_mul :: "Matrix \<Rightarrow> Matrix \<Rightarrow> Matrix" where
  "Matrix_mul m1 m2 =
     \<lparr>off = Vector_add (off m1) (Matrix_apply m1 (off m2)),
      v1 = Matrix_apply m1 (v1 m2),
      v2 = Matrix_apply m1 (v2 m2),
      v3 = Matrix_apply m1 (v3 m2)\<rparr>"

section \<open>The stack parameters\<close>

text \<open>A \<^verbatim>\<open>SplineObject*\<close> is a handle; \<open>None\<close> is \<^verbatim>\<open>nullptr\<close>.\<close>

type_synonym SplineObject = nat

text \<open>
  \<^verbatim>\<open>struct StackParameters\<close> of canstackgenerator.h. The fields \<open>randomOffX\<close> and
  \<open>randomOffZ\<close> are read by canstackgenerator.cpp; the header declares \<open>randomPos\<close> in
  their place, so the record carries all three.
\<close>

record StackParameters =
  baseCount :: int
  baseLength :: Float
  rowCount :: int
  rowHeight :: Float
  randomSeed :: "32 word"
  randomPos :: Float
  randomRot :: Float
  randomOffX :: Float
  randomOffZ :: Float
  basePath :: "SplineObject option"

text \<open>The default constructor \<^verbatim>\<open>StackParameters()\<close>.\<close>

definition StackParameters_default :: StackParameters where
  "StackParameters_default =
     \<lparr>baseCount = 0, baseLength = Fin 0, rowCount = 0, rowHeight = Fin 0, randomSeed = 0,
      randomPos = Fin 0, randomRot = Fin 0, randomOffX = Fin 0, randomOffZ = Fin 0,
      basePath = None\<rparr>"

text \<open>\<^verbatim>\<open>operator ==\<close> of the header: seven comparisons, joined by \<^verbatim>\<open>&&\<close>.\<close>

definition params_eq :: "StackParameters \<Rightarrow> StackParameters \<Rightarrow> bool" where
  "params_eq x1 x2 \<longleftrightarrow>
     baseCount x1 = baseCount x2 \<and> feq (baseLength x1) (baseLength x2) \<and>
     rowCount x1 = rowCount x2 \<and> feq (rowHeight x1) (rowHeight x2) \<and>
     randomSeed x1 = randomSeed x2 \<and> feq (randomPos x1) (randomPos x2) \<and>
     feq (randomRot x1) (randomRot x2)"

section \<open>What the generator takes from the SDK\<close>

text \<open>
  The Cinema 4D SDK is not part of the repository. Every SDK call whose result the generator
  depends on is a field of this record, so each theorem below holds for any SDK.
  \<^item> \<open>get11 seed n\<close> is the value of the \<open>n\<close>-th call of \<^verbatim>\<open>Random::Get11\<close> after
    \<^verbatim>\<open>Random::Init(seed)\<close>;
  \<^item> \<open>args_left_to_right\<close> is the compiler's order for the arguments of the
    \<^verbatim>\<open>Vector\<close> constructor in straight mode, which C++ leaves open and which decides
    which of two draws is the offset across;
  \<^item> \<open>array_alloc n\<close> tells whether \<^verbatim>\<open>BaseArray::Resize(n)\<close> gets its memory,
    \<open>sld_alloc\<close>, \<open>null_alloc\<close> and \<open>item_alloc k\<close> whether
    \<^verbatim>\<open>SplineLengthData::Alloc\<close>, the parent Null and the \<open>k\<close>-th item are allocated;
  \<^item> the rest are the SDK functions of the same names (\<open>Matrix_inverse\<close> is
    \<^verbatim>\<open>operator ~\<close>, \<open>sld_init\<close> is \<^verbatim>\<open>SplineLengthData::Init\<close>).
\<close>

record SDK =
  get11 :: "32 word \<Rightarrow> nat \<Rightarrow> real"
  args_left_to_right :: bool
  HPBToMatrix :: "Vector \<Rightarrow> Matrix"
  Matrix_inverse :: "Matrix \<Rightarrow> Matrix"
  GetMg :: "SplineObject \<Rightarrow> Matrix"
  sld_alloc :: bool
  sld_init :: "SplineObject \<Rightarrow> bool"
  UniformToNatural :: "SplineObject \<Rightarrow> Float \<Rightarrow> Float"
  GetSplinePoint :: "SplineObject \<Rightarrow> Float \<Rightarrow> Vector"
  GetSplineTangent :: "SplineObject \<Rightarrow> Float \<Rightarrow> Vector"
  array_alloc :: "nat \<Rightarrow> bool"
  null_alloc :: bool
  item_alloc :: "nat \<Rightarrow> bool"

text \<open>
  The state of a \<^verbatim>\<open>Random\<close>: the seed of the last \<^verbatim>\<open>Init\<close> and the number of draws
  since.
\<close>

record Random =
  rseed :: "32 word"
  drawn :: nat

definition Random_Init :: "32 word \<Rightarrow> Random" where
  "Random_Init s = \<lparr>rseed = s, drawn = 0\<rparr>"

definition Get11 :: "SDK \<Rightarrow> Random \<Rightarrow> Float \<times> Random" where
  "Get11 sdk g = (Fin (get11 sdk (rseed g) (drawn g)), g\<lparr>drawn := Suc (drawn g)\<rparr>)"

text \<open>
  \<^verbatim>\<open>BaseArray::Resize(newCnt)\<close>: the first elements are kept, new ones are default
  constructed, and the array is left as it was when the call fails. A negative count is
  outside the SDK's contract; the model lets that call fail.
\<close>

definition Resize :: "SDK \<Rightarrow> int \<Rightarrow> 'a \<Rightarrow> 'a list \<Rightarrow> 'a list option" where
  "Resize sdk newCnt dflt xs =
     (if newCnt < 0 \<or> \<not> array_alloc sdk (nat newCnt) then None
      else Some (take (nat newCnt) xs @ replicate (nat newCnt - length xs) dflt))"

section \<open>The generator\<close>

text \<open>
  The members of \<^verbatim>\<open>class CanStackGenerator\<close>. \<open>splineLengthData\<close> is \<open>None\<close> while
  unallocated, \<open>Some None\<close> when allocated, \<open>Some (Some c)\<close> when initialised for the
  spline \<open>c\<close>. \<open>randomGen\<close> is the member \<^verbatim>\<open>_random\<close>.
\<close>

record CanStackGenerator =
  splineLengthData :: "SplineObject option option"
  array :: "Matrix list list"
  params :: StackParameters
  randomGen :: Random
  initialized :: bool

text \<open>
  A generator as ostack.cpp creates it, inside a \<^verbatim>\<open>StackObject\<close> from
  \<^verbatim>\<open>NewObjClear\<close>: cleared memory, default constructed members. The seed of a default
  constructed \<^verbatim>\<open>Random\<close> is never used, \<open>InitStack\<close> seeds before any draw.
\<close>

definition CanStackGenerator_new :: CanStackGenerator where
  "CanStackGenerator_new =
     \<lparr>splineLengthData = None, array = [], params = StackParameters_default,
      randomGen = Random_Init 0, initialized = False\<rparr>"

text \<open>The loop of \<^verbatim>\<open>ResizeStack\<close> over the rows; it stops at the first failure.\<close>

fun ResizeStack_rows :: "SDK \<Rightarrow> int \<Rightarrow> int \<Rightarrow> int \<Rightarrow> Matrix list list \<Rightarrow> bool \<times> Matrix list list" where
  "ResizeStack_rows sdk bc rowCnt rowIndex [] = (True, [])"
| "ResizeStack_rows sdk bc rowCnt rowIndex (row # rows) =
     (if \<not> rowIndex < rowCnt then (True, row # rows)
      else case Resize sdk (bc - rowIndex) Matrix_unit row of
             None \<Rightarrow> (False, row # rows)
           | Some row' \<Rightarrow>
               (case ResizeStack_rows sdk bc rowCnt (rowIndex + 1) rows of
                  (ok, rows') \<Rightarrow> (ok, row' # rows')))"

text \<open>
  \<^verbatim>\<open>ResizeStack(baseCount, rowCount)\<close>. The rows are sized from the member
  \<^verbatim>\<open>_params._baseCount\<close>, not from the argument.
\<close>

definition ResizeStack :: "SDK \<Rightarrow> int \<Rightarrow> int \<Rightarrow> CanStackGenerator \<Rightarrow> bool \<times> CanStackGenerator" where
  "ResizeStack sdk baseCnt rowCnt s =
     (case Resize sdk (min baseCnt rowCnt) [] (array s) of
        None \<Rightarrow> (False, s)
      | Some a \<Rightarrow>
          (case ResizeStack_rows sdk (baseCount (params s)) rowCnt 0 a of
             (ok, a') \<Rightarrow> (ok, s\<lparr>array := a'\<rparr>)))"

definition InitStack :: "SDK \<Rightarrow> StackParameters \<Rightarrow> CanStackGenerator \<Rightarrow> bool \<times> CanStackGenerator" where
  "InitStack sdk p s =
     (let s1 = s\<lparr>randomGen := Random_Init (randomSeed p)\<rparr> in
      if params_eq p (params s1) then (True, s1)
      else
        let s2 = s1\<lparr>params := StackParameters_default, initialized := False\<rparr> in
        if baseCount p < 1 then (False, s2)
        else
          let s3 = s2\<lparr>params := p\<rparr> in
          case ResizeStack sdk (baseCount (params s3)) (rowCount (params s3)) s3 of
            (False, s4) \<Rightarrow> (False, s4)
          | (True, s4) \<Rightarrow> (True, s4\<lparr>initialized := True\<rparr>))"

text \<open>\<^verbatim>\<open>relDistance\<close> and \<^verbatim>\<open>distance\<close>, as \<^verbatim>\<open>GenerateStack\<close> computes them.\<close>

definition relDistance :: "StackParameters \<Rightarrow> Float" where
  "relDistance p = fdiv (Fin 1) (Float_of_Int32 (baseCount p - 1))"

definition distance :: "StackParameters \<Rightarrow> Float" where
  "distance p = fdiv (baseLength p) (Float_of_Int32 (baseCount p))"

text \<open>The argument of \<^verbatim>\<open>UniformToNatural\<close> for the item \<open>itemIndex\<close> of the row \<open>rowIndex\<close>.\<close>

definition spline_fraction :: "Float \<Rightarrow> int \<Rightarrow> int \<Rightarrow> Float" where
  "spline_fraction relDist itemIndex rowIndex =
     fadd (fmul relDist (Float_of_Int32 itemIndex))
          (fmul (fmul relDist (Fin (1/2))) (Float_of_Int32 rowIndex))"

text \<open>
  The body of the inner loop of \<^verbatim>\<open>GenerateStack\<close>: the matrix of one item and the
  generator after its three draws. \<open>spacing\<close> and \<open>relDist\<close> are the locals
  \<^verbatim>\<open>distance\<close> and \<^verbatim>\<open>relDistance\<close>.
\<close>

definition GenerateStack_item ::
  "SDK \<Rightarrow> StackParameters \<Rightarrow> Float \<Rightarrow> Float \<Rightarrow> int \<Rightarrow> int \<Rightarrow> Random \<Rightarrow> Matrix \<times> Random" where
  "GenerateStack_item sdk p spacing relDist rowIndex itemIndex g =
     (case Get11 sdk g of (d1, g1) \<Rightarrow>
      (let rotMatrix = HPBToMatrix sdk (Vector_xyz (fmul d1 (randomRot p)) (Fin 0) (Fin 0)) in
       (case basePath p of
          Some c \<Rightarrow>
            (let relOffset = UniformToNatural sdk c (spline_fraction relDist itemIndex rowIndex);
                 splinePosition = GetSplinePoint sdk c relOffset;
                 splineTangent = GetSplineTangent sdk c relOffset;
                 splineCrossTangent = Cross splineTangent (Vector_xyz (Fin 0) (Fin 1) (Fin 0));
                 o1 = splinePosition\<lparr>vy := fadd (vy splinePosition)
                                                (fmul (rowHeight p) (Float_of_Int32 rowIndex))\<rparr>
             in (case Get11 sdk g1 of (d2, g2) \<Rightarrow>
                 (let o2 = Vector_add o1
                             (Vector_scale (Vector_scale splineCrossTangent d2) (randomOffX p))
                  in (case Get11 sdk g2 of (d3, g3) \<Rightarrow>
                      (let o3 = Vector_add o2
                                  (Vector_scale (Vector_scale splineTangent d3) (randomOffZ p))
                       in (Matrix_mul (GetMg sdk c) (rotMatrix\<lparr>off := o3\<rparr>), g3))))))
        | None \<Rightarrow>
            (case Get11 sdk g1 of (d2, g2) \<Rightarrow>
             (case Get11 sdk g2 of (d3, g3) \<Rightarrow>
              (let dX = (if args_left_to_right sdk then d2 else d3);
                   dZ = (if args_left_to_right sdk then d3 else d2)
               in (rotMatrix\<lparr>off := Vector_xyz
                     (fmul dX (randomOffX p))
                     (fmul (rowHeight p) (Float_of_Int32 rowIndex))
                     (fadd (fadd (fmul spacing (Float_of_Int32 itemIndex))
                                 (fmul (fmul spacing (Float_of_Int32 rowIndex)) (Fin (1/2))))
                           (fmul dZ (randomOffZ p)))\<rparr>, g3)))))))"

text \<open>The inner loop, over the items of one row, and the outer loop, over the rows.\<close>

fun GenerateStack_row ::
  "SDK \<Rightarrow> StackParameters \<Rightarrow> Float \<Rightarrow> Float \<Rightarrow> int \<Rightarrow> int \<Rightarrow> Random \<Rightarrow> Matrix list
     \<Rightarrow> Matrix list \<times> Random" where
  "GenerateStack_row sdk p spacing relDist rowIndex itemIndex g [] = ([], g)"
| "GenerateStack_row sdk p spacing relDist rowIndex itemIndex g (item # items) =
     (case GenerateStack_item sdk p spacing relDist rowIndex itemIndex g of (m, g') \<Rightarrow>
      case GenerateStack_row sdk p spacing relDist rowIndex (itemIndex + 1) g' items of
        (ms, g'') \<Rightarrow> (m # ms, g''))"

fun GenerateStack_rows ::
  "SDK \<Rightarrow> StackParameters \<Rightarrow> Float \<Rightarrow> Float \<Rightarrow> int \<Rightarrow> Random \<Rightarrow> Matrix list list
     \<Rightarrow> Matrix list list \<times> Random" where
  "GenerateStack_rows sdk p spacing relDist rowIndex g [] = ([], g)"
| "GenerateStack_rows sdk p spacing relDist rowIndex g (row # rows) =
     (case GenerateStack_row sdk p spacing relDist rowIndex 0 g row of (row', g') \<Rightarrow>
      case GenerateStack_rows sdk p spacing relDist (rowIndex + 1) g' rows of
        (rows', g'') \<Rightarrow> (row' # rows', g''))"

definition GenerateStack :: "SDK \<Rightarrow> CanStackGenerator \<Rightarrow> bool \<times> CanStackGenerator" where
  "GenerateStack sdk s =
     (if \<not> initialized s then (False, s)
      else case basePath (params s) of
        Some c \<Rightarrow>
          if splineLengthData s = None \<and> \<not> sld_alloc sdk then (False, s)
          else if \<not> sld_init sdk c then (False, s\<lparr>splineLengthData := Some None\<rparr>)
          else
            (case GenerateStack_rows sdk (params s) (Fin 0) (relDistance (params s)) 0
                    (randomGen s) (array s) of
               (a, g) \<Rightarrow>
                 (True, s\<lparr>splineLengthData := Some (Some c), array := a, randomGen := g\<rparr>))
      | None \<Rightarrow>
          (case GenerateStack_rows sdk (params s) (distance (params s)) (Fin 0) 0
                  (randomGen s) (array s) of
             (a, g) \<Rightarrow> (True, s\<lparr>array := a, randomGen := g\<rparr>)))"

section \<open>The geometry\<close>










section \<open>The shape of a stack\<close>

text \<open>
  The triangular shape: \<open>min baseCnt rowCnt\<close> rows, the row \<open>r\<close> (counted from 0) of
  \<open>baseCnt - r\<close> items.
\<close>

definition stack_shape :: "int \<Rightarrow> int \<Rightarrow> Matrix list list \<Rightarrow> bool" where
  "stack_shape baseCnt rowCnt a \<longleftrightarrow>
     map length a = map (\<lambda>r. nat (baseCnt - int r)) [0..<nat (min baseCnt rowCnt)]"

definition item_count :: "Matrix list list \<Rightarrow> nat" where
  "item_count a = sum_list (map length a)"

text \<open>
  What every generator reached from a new one satisfies: when the flag \<open>initialized\<close> is
  set, the stored base count is at least 1 and the array has the shape of the stored counts.
\<close>

definition stack_inv :: "CanStackGenerator \<Rightarrow> bool" where
  "stack_inv s \<longleftrightarrow>
     (initialized s \<longrightarrow>
        1 \<le> baseCount (params s) \<and>
        stack_shape (baseCount (params s)) (rowCount (params s)) (array s))"

text \<open>The generator after \<open>n\<close> more draws.\<close>

definition after_draws :: "nat \<Rightarrow> Random \<Rightarrow> Random" where
  "after_draws n g = g\<lparr>drawn := drawn g + n\<rparr>"

text \<open>The number of items before the row \<open>r\<close>, in a stack of base count \<open>baseCnt\<close>.\<close>

definition items_before :: "int \<Rightarrow> nat \<Rightarrow> nat" where
  "items_before baseCnt r = (\<Sum>k<r. nat (baseCnt - int k))"

text \<open>Whether a fraction lies in the interval from 0 to 1 (NaN does not).\<close>

fun in_unit :: "Float \<Rightarrow> bool" where
  "in_unit (Fin a) = (0 \<le> a \<and> a \<le> 1)"
| "in_unit _ = False"

section \<open>A concrete SDK and concrete parameters\<close>

text \<open>
  An SDK to run the generator on: every draw is 0, so the only heading is 0, whose matrix is
  the unit matrix; every spline is the straight segment from \<open>(100, 0, 0)\<close> to
  \<open>(100, 0, 50)\<close>, in arc length parametrisation, with a unit global matrix; every
  allocation succeeds. Its inverse is the inverse of a translation, which is all it is
  applied to.
\<close>

definition line_sdk :: SDK where
  "line_sdk =
     \<lparr>get11 = (\<lambda>seed n. 0),
      args_left_to_right = True,
      HPBToMatrix = (\<lambda>hpb. Matrix_unit),
      Matrix_inverse = (\<lambda>m. m\<lparr>off := Vector_scale (off m) (Fin (- 1))\<rparr>),
      GetMg = (\<lambda>c. Matrix_unit),
      sld_alloc = True,
      sld_init = (\<lambda>c. True),
      UniformToNatural = (\<lambda>c u. u),
      GetSplinePoint = (\<lambda>c t. Vector_xyz (Fin 100) (Fin 0) (fmul (Fin 50) t)),
      GetSplineTangent = (\<lambda>c t. Vector_xyz (Fin 0) (Fin 0) (Fin 1)),
      array_alloc = (\<lambda>n. True),
      null_alloc = True,
      item_alloc = (\<lambda>k. True)\<rparr>"

text \<open>
  The scenario of the specification: three items in the base row, three rows, length 30,
  row height 10, no randomness, no path.
\<close>

definition straight3 :: StackParameters where
  "straight3 =
     \<lparr>baseCount = 3, baseLength = Fin 30, rowCount = 3, rowHeight = Fin 10, randomSeed = 12345,
      randomPos = Fin 0, randomRot = Fin 0, randomOffX = Fin 0, randomOffZ = Fin 0,
      basePath = None\<rparr>"

text \<open>The same parameters with the spline 1 as path.\<close>

definition curve3 :: StackParameters where
  "curve3 = straight3\<lparr>basePath := Some 1\<rparr>"

text \<open>One item, one row, on the spline 1.\<close>

definition curve1 :: StackParameters where
  "curve1 = straight3\<lparr>baseCount := 1, rowCount := 1, basePath := Some 1\<rparr>"

text \<open>The parameters a failing \<open>InitStack\<close> is given: no item in the base row.\<close>

definition nobase :: StackParameters where
  "nobase = straight3\<lparr>baseCount := 0\<rparr>"



text \<open>A new generator after a successful \<open>InitStack\<close> with the parameters \<open>straight3\<close>.\<close>

definition configured3 :: CanStackGenerator where
  "configured3 = snd (InitStack line_sdk straight3 CanStackGenerator_new)"

text \<open>A new generator after a successful \<open>InitStack\<close> with the parameters \<open>curve3\<close>.\<close>

definition configured_curve3 :: CanStackGenerator where
  "configured_curve3 = snd (InitStack line_sdk curve3 CanStackGenerator_new)"







section \<open>Resizing and the shape of the array\<close>

lemma Resize_Some:
  "Resize sdk n d xs = Some ys \<Longrightarrow> 0 \<le> n \<and> length ys = nat n \<and> array_alloc sdk (nat n)"
  by (auto simp: Resize_def split: if_splits)

lemma Resize_same_length:
  "length xs = nat n \<Longrightarrow> 0 \<le> n \<Longrightarrow> array_alloc sdk (nat n) \<Longrightarrow> Resize sdk n d xs = Some xs"
  by (simp add: Resize_def)

lemma ResizeStack_rows_shape:
  "ResizeStack_rows sdk bc rc k a = (True, a') \<Longrightarrow> k + int (length a) \<le> rc \<Longrightarrow>
   map length a' = map (\<lambda>j. nat (bc - k - int j)) [0..<length a]"
proof (induction a arbitrary: k a')
  case Nil
  then show ?case by simp
next
  case (Cons row rows)
  from Cons.prems(2) have lt: "k < rc" by simp
  from Cons.prems(1) lt obtain row' rows' where
    r: "Resize sdk (bc - k) Matrix_unit row = Some row'" and
    rs: "ResizeStack_rows sdk bc rc (k + 1) rows = (True, rows')" and
    a': "a' = row' # rows'"
    by (auto split: option.splits prod.splits)
  from Cons.prems(2) have "k + 1 + int (length rows) \<le> rc" by simp
  from Cons.IH [OF rs this]
  have "map length rows' = map (\<lambda>j. nat (bc - (k + 1) - int j)) [0..<length rows]" .
  moreover have "length row' = nat (bc - k)" using Resize_Some [OF r] by simp
  ultimately show ?case
    by (simp add: a' map_upt_Suc del: upt_Suc) (simp add: algebra_simps)
qed

lemma ResizeStack_shape:
  assumes "ResizeStack sdk bc rc s = (True, s')" and "baseCount (params s) = bc"
  shows "stack_shape bc rc (array s')"
    and "params s' = params s" and "initialized s' = initialized s"
    and "randomGen s' = randomGen s" and "splineLengthData s' = splineLengthData s"
proof -
  from assms(1) obtain a a' where
    r: "Resize sdk (min bc rc) [] (array s) = Some a" and
    rs: "ResizeStack_rows sdk (baseCount (params s)) rc 0 a = (True, a')" and
    s': "s' = s\<lparr>array := a'\<rparr>"
    by (auto simp: ResizeStack_def split: option.splits prod.splits)
  from Resize_Some [OF r] have len: "length a = nat (min bc rc)" and nn: "0 \<le> min bc rc"
    by simp_all
  from nn len have "0 + int (length a) \<le> rc" by simp
  from ResizeStack_rows_shape [OF rs this] show "stack_shape bc rc (array s')"
    by (simp add: stack_shape_def s' len assms(2))
  show "params s' = params s" "initialized s' = initialized s"
    "randomGen s' = randomGen s" "splineLengthData s' = splineLengthData s"
    by (simp_all add: s')
qed

lemma InitStack_noop:
  "params_eq p (params s) \<Longrightarrow>
   InitStack sdk p s = (True, s\<lparr>randomGen := Random_Init (randomSeed p)\<rparr>)"
  by (simp add: InitStack_def)

lemma InitStack_reject:
  "\<not> params_eq p (params s) \<Longrightarrow> baseCount p < 1 \<Longrightarrow>
   InitStack sdk p s =
     (False, s\<lparr>randomGen := Random_Init (randomSeed p), params := StackParameters_default,
               initialized := False\<rparr>)"
  by (simp add: InitStack_def)

lemma InitStack_full:
  "\<not> params_eq p (params s) \<Longrightarrow> 1 \<le> baseCount p \<Longrightarrow>
   InitStack sdk p s =
     (case ResizeStack sdk (baseCount p) (rowCount p)
             (s\<lparr>randomGen := Random_Init (randomSeed p), initialized := False, params := p\<rparr>) of
        (False, s4) \<Rightarrow> (False, s4)
      | (True, s4) \<Rightarrow> (True, s4\<lparr>initialized := True\<rparr>))"
  by (simp add: InitStack_def Let_def)

lemma ResizeStack_False:
  "ResizeStack sdk bc rc s = (False, s') \<Longrightarrow>
   params s' = params s \<and> initialized s' = initialized s \<and> randomGen s' = randomGen s
   \<and> splineLengthData s' = splineLengthData s"
  by (auto simp: ResizeStack_def split: option.splits prod.splits)

lemma params_eq_counts:
  "params_eq p q \<Longrightarrow> baseCount p = baseCount q \<and> rowCount p = rowCount q \<and> randomSeed p = randomSeed q"
  by (simp add: params_eq_def)

lemma InitStack_initialized:
  assumes "stack_inv s" and "initialized (snd (InitStack sdk p s))"
  shows "1 \<le> baseCount p \<and> stack_shape (baseCount p) (rowCount p) (array (snd (InitStack sdk p s)))"
proof (cases "params_eq p (params s)")
  case True
  with assms show ?thesis
    by (simp add: InitStack_noop stack_inv_def params_eq_counts)
next
  case False
  show ?thesis
  proof (cases "baseCount p < 1")
    case True
    with False assms(2) show ?thesis by (simp add: InitStack_reject)
  next
    case ge: False
    let ?s3 = "s\<lparr>randomGen := Random_Init (randomSeed p), initialized := False, params := p\<rparr>"
    obtain ok s4 where rs: "ResizeStack sdk (baseCount p) (rowCount p) ?s3 = (ok, s4)"
      by (cases "ResizeStack sdk (baseCount p) (rowCount p) ?s3")
    show ?thesis
    proof (cases ok)
      case True
      with rs have rs': "ResizeStack sdk (baseCount p) (rowCount p) ?s3 = (True, s4)" by simp
      have "stack_shape (baseCount p) (rowCount p) (array s4)"
        by (rule ResizeStack_shape(1) [OF rs']) simp
      with False ge rs' show ?thesis by (simp add: InitStack_full)
    next
      case f: False
      with rs have rs': "ResizeStack sdk (baseCount p) (rowCount p) ?s3 = (False, s4)" by simp
      from ResizeStack_False [OF rs'] have "\<not> initialized s4" by simp
      with False ge rs' assms(2) show ?thesis by (simp add: InitStack_full)
    qed
  qed
qed

lemma triangle_sum: "sum_list (map (\<lambda>r. n - r) [0..<n]) = n * (n + 1) div 2"
proof (induction n)
  case 0
  show ?case by simp
next
  case (Suc n)
  have "sum_list (map (\<lambda>r. Suc n - r) [0..<Suc n]) = Suc n + sum_list (map (\<lambda>r. n - r) [0..<n])"
    by (simp add: map_upt_Suc del: upt_Suc)
  with Suc show ?case by simp
qed

lemma stack_shape_facts:
  assumes "stack_shape bc rc a" and "1 \<le> bc"
  shows "length a = nat (min bc rc)"
    and "\<forall>r<length a. length (a ! r) = nat (bc - int r)"
    and "\<forall>row\<in>set a. 0 < length row"
    and "bc \<le> rc \<longrightarrow> item_count a = nat (bc * (bc + 1) div 2)"
proof -
  from assms(1) have m: "map length a = map (\<lambda>r. nat (bc - int r)) [0..<nat (min bc rc)]"
    by (simp add: stack_shape_def)
  from arg_cong [OF m, of length] show len: "length a = nat (min bc rc)" by simp
  show nth: "\<forall>r<length a. length (a ! r) = nat (bc - int r)"
  proof (intro allI impI)
    fix r assume r: "r < length a"
    then have "length (a ! r) = map length a ! r" by simp
    also have "\<dots> = nat (bc - int r)" using r len by (simp add: m)
    finally show "length (a ! r) = nat (bc - int r)" .
  qed
  show "\<forall>row\<in>set a. 0 < length row"
  proof
    fix row assume "row \<in> set a"
    then obtain r where r: "r < length a" and row: "row = a ! r"
      by (auto simp: in_set_conv_nth)
    from r len have "int r < bc" by simp
    with nth r row show "0 < length row" by simp
  qed
  show "bc \<le> rc \<longrightarrow> item_count a = nat (bc * (bc + 1) div 2)"
  proof
    assume le: "bc \<le> rc"
    with assms(2) have mn: "nat (min bc rc) = nat bc" by simp
    have eq: "map (\<lambda>r. nat (bc - int r)) [0..<nat bc] = map (\<lambda>r. nat bc - r) [0..<nat bc]"
      using assms(2) by (intro map_cong) auto
    have "item_count a = sum_list (map (\<lambda>r. nat (bc - int r)) [0..<nat bc])"
      by (simp only: item_count_def m mn)
    also have "\<dots> = nat bc * (nat bc + 1) div 2"
      by (simp only: eq triangle_sum)
    also have "\<dots> = nat (bc * (bc + 1) div 2)"
      using assms(2) by (simp add: nat_div_distrib nat_mult_distrib nat_add_distrib)
    finally show "item_count a = nat (bc * (bc + 1) div 2)" .
  qed
qed

text \<open>The invariant holds for a new generator and \<open>InitStack\<close> keeps it.\<close>

lemma stack_inv_new: "stack_inv CanStackGenerator_new"
  by (simp add: stack_inv_def CanStackGenerator_new_def)

lemma new_generator_tells_apart:
  "1 \<le> baseCount p \<Longrightarrow> \<not> params_eq p (params CanStackGenerator_new)"
  by (auto simp: params_eq_def CanStackGenerator_new_def StackParameters_default_def)

lemma stack_inv_InitStack:
  assumes "stack_inv s"
  shows "stack_inv (snd (InitStack sdk p s))"
proof -
  have "initialized (snd (InitStack sdk p s)) \<Longrightarrow>
        1 \<le> baseCount (params (snd (InitStack sdk p s))) \<and>
        stack_shape (baseCount (params (snd (InitStack sdk p s))))
          (rowCount (params (snd (InitStack sdk p s)))) (array (snd (InitStack sdk p s)))"
  proof (cases "params_eq p (params s)")
    case True
    assume "initialized (snd (InitStack sdk p s))"
    with True assms show ?thesis by (simp add: InitStack_noop stack_inv_def)
  next
    case False
    assume i: "initialized (snd (InitStack sdk p s))"
    from InitStack_initialized [OF assms i]
    have sh: "1 \<le> baseCount p"
      "stack_shape (baseCount p) (rowCount p) (array (snd (InitStack sdk p s)))"
      by simp_all
    have "params (snd (InitStack sdk p s)) = p"
      using False sh(1) i
      by (auto simp: InitStack_full split: prod.splits bool.splits
               dest: ResizeStack_False ResizeStack_shape(2))
    with sh show ?thesis by simp
  qed
  then show ?thesis by (auto simp: stack_inv_def)
qed








section \<open>Calling \<open>InitStack\<close> again\<close>

lemma ResizeStack_rows_length:
  "ResizeStack_rows sdk bc rc k a = (ok, a') \<Longrightarrow> length a' = length a"
  by (induction a arbitrary: k a' ok) (auto split: if_splits option.splits prod.splits)

lemma Resize_again: "Resize sdk n d xs = Some ys \<Longrightarrow> Resize sdk n d ys = Some ys"
  by (auto simp: Resize_def split: if_splits)

lemma ResizeStack_rows_again:
  "ResizeStack_rows sdk bc rc k a = (ok, a') \<Longrightarrow> ResizeStack_rows sdk bc rc k a' = (ok, a')"
proof (induction a arbitrary: k a' ok)
  case Nil
  then show ?case by simp
next
  case (Cons row rows)
  show ?case
  proof (cases "k < rc")
    case False
    with Cons.prems show ?thesis by auto
  next
    case lt: True
    show ?thesis
    proof (cases "Resize sdk (bc - k) Matrix_unit row")
      case None
      with lt Cons.prems show ?thesis by auto
    next
      case (Some row')
      obtain ok' rows' where rs: "ResizeStack_rows sdk bc rc (k + 1) rows = (ok', rows')"
        by (cases "ResizeStack_rows sdk bc rc (k + 1) rows")
      from Cons.prems lt Some rs have a': "a' = row' # rows'" and ok: "ok = ok'" by auto
      from Cons.IH [OF rs] Resize_again [OF Some] lt show ?thesis
        by (simp add: a' ok)
    qed
  qed
qed

lemma ResizeStack_again:
  assumes "ResizeStack sdk bc rc s = (ok, s')"
  shows "ResizeStack sdk bc rc s' = (ok, s')"
proof (cases "Resize sdk (min bc rc) [] (array s)")
  case None
  with assms show ?thesis by (auto simp: ResizeStack_def)
next
  case (Some a)
  obtain ok' a' where rs: "ResizeStack_rows sdk (baseCount (params s)) rc 0 a = (ok', a')"
    by (cases "ResizeStack_rows sdk (baseCount (params s)) rc 0 a")
  from assms Some rs have s': "s' = s\<lparr>array := a'\<rparr>" and ok: "ok = ok'"
    by (auto simp: ResizeStack_def)
  from Resize_Some [OF Some] ResizeStack_rows_length [OF rs]
  have "Resize sdk (min bc rc) [] a' = Some a'"
    by (intro Resize_same_length) simp_all
  with ResizeStack_rows_again [OF rs] show ?thesis
    by (simp add: ResizeStack_def s' ok)
qed

lemma ResizeStack_fields:
  "ResizeStack sdk bc rc s = (ok, s') \<Longrightarrow>
   params s' = params s \<and> initialized s' = initialized s \<and> randomGen s' = randomGen s
   \<and> splineLengthData s' = splineLengthData s"
  by (auto simp: ResizeStack_def split: option.splits prod.splits)

lemma InitStack_randomGen: "randomGen (snd (InitStack sdk p s)) = Random_Init (randomSeed p)"
  by (auto simp: InitStack_def Let_def split: prod.splits bool.splits dest: ResizeStack_fields)

lemma InitStack_again:
  "snd (InitStack sdk p (snd (InitStack sdk p s))) = snd (InitStack sdk p s) \<and>
   (fst (InitStack sdk p s) \<longrightarrow> fst (InitStack sdk p (snd (InitStack sdk p s))))"
proof (cases "params_eq p (params s)")
  case True
  then show ?thesis by (simp add: InitStack_noop)
next
  case ne: False
  show ?thesis
  proof (cases "baseCount p < 1")
    case True
    let ?s' = "s\<lparr>randomGen := Random_Init (randomSeed p), params := StackParameters_default,
                  initialized := False\<rparr>"
    from ne True have 1: "InitStack sdk p s = (False, ?s')" by (simp add: InitStack_reject)
    have "snd (InitStack sdk p ?s') = ?s'"
      using True by (cases "params_eq p StackParameters_default")
        (simp_all add: InitStack_noop InitStack_reject)
    with 1 show ?thesis by simp
  next
    case ge: False
    let ?s3 = "s\<lparr>randomGen := Random_Init (randomSeed p), initialized := False, params := p\<rparr>"
    obtain ok s4 where rs: "ResizeStack sdk (baseCount p) (rowCount p) ?s3 = (ok, s4)"
      by (cases "ResizeStack sdk (baseCount p) (rowCount p) ?s3")
    from ResizeStack_fields [OF rs]
    have f: "params s4 = p" "initialized s4 = False"
      "randomGen s4 = Random_Init (randomSeed p)"
      by simp_all
    let ?s' = "if ok then s4\<lparr>initialized := True\<rparr> else s4"
    from ne ge rs have 1: "InitStack sdk p s = (ok, ?s')"
      by (cases ok) (simp_all add: InitStack_full)
    have p': "params ?s' = p" using f by simp
    have s3': "?s'\<lparr>randomGen := Random_Init (randomSeed p), initialized := False, params := p\<rparr> = s4"
      using f by (cases s4) auto
    have g': "?s'\<lparr>randomGen := Random_Init (randomSeed p)\<rparr> = ?s'"
      using f by (cases s4) auto
    have "InitStack sdk p ?s' = (if params_eq p p then True else ok, ?s')"
    proof (cases "params_eq p p")
      case True
      then show ?thesis using InitStack_noop [of p ?s' sdk] by (simp only: p' g' if_True)
    next
      case False
      with ge p' have "InitStack sdk p ?s' =
        (case ResizeStack sdk (baseCount p) (rowCount p) s4 of
           (False, s4) \<Rightarrow> (False, s4) | (True, s4) \<Rightarrow> (True, s4\<lparr>initialized := True\<rparr>))"
        using InitStack_full [of p ?s' sdk] by (simp only: s3') simp
      with ResizeStack_again [OF rs] False show ?thesis by (cases ok) simp_all
    qed
    with 1 show ?thesis by (cases ok) simp_all
  qed
qed

text \<open>
  C7. \<open>InitStack\<close> called a second time with the same parameters leaves the generator as
  the first call left it, with the random generator freshly seeded, and returns \<open>true\<close>
  when the first call did; so \<open>GenerateStack\<close> after the two calls does what it does after
  one.
\<close>

theorem C7_configure_twice:
  "snd (InitStack sdk p (snd (InitStack sdk p s))) = snd (InitStack sdk p s) \<and>
   randomGen (snd (InitStack sdk p (snd (InitStack sdk p s)))) = Random_Init (randomSeed p) \<and>
   (fst (InitStack sdk p s) \<longrightarrow> fst (InitStack sdk p (snd (InitStack sdk p s)))) \<and>
   GenerateStack sdk (snd (InitStack sdk p (snd (InitStack sdk p s)))) =
     GenerateStack sdk (snd (InitStack sdk p s))"
  using InitStack_again [of sdk p s] InitStack_randomGen [of sdk p "snd (InitStack sdk p s)"]
  by simp

theorem C7_configure_twice_witness:
  "fst (InitStack line_sdk straight3 CanStackGenerator_new) \<and>
   fst (InitStack line_sdk straight3 (snd (InitStack line_sdk straight3 CanStackGenerator_new))) \<and>
   GenerateStack line_sdk
     (snd (InitStack line_sdk straight3 (snd (InitStack line_sdk straight3 CanStackGenerator_new)))) =
   GenerateStack line_sdk (snd (InitStack line_sdk straight3 CanStackGenerator_new))"
proof -
  have h: "fst (InitStack line_sdk straight3 CanStackGenerator_new)"
    by code_simp
  from C7_configure_twice [of line_sdk straight3 CanStackGenerator_new] h show ?thesis
    by simp
qed

section \<open>A failing \<open>InitStack\<close>\<close>

text \<open>
  C3, as the specification states it, does not hold. A generator configured with
  \<open>straight3\<close> is initialised and \<open>GenerateStack\<close> succeeds on it; after \<open>InitStack\<close>
  has refused the base count 0, the stored base count is 0 instead of 3, the flag is cleared
  and \<open>GenerateStack\<close> fails.
\<close>

theorem C3_state_kept_counterexample:
  "initialized configured3 \<and> baseCount (params configured3) = 3 \<and>
   fst (GenerateStack line_sdk configured3) \<and>
   \<not> fst (InitStack line_sdk nobase configured3) \<and>
   \<not> initialized (snd (InitStack line_sdk nobase configured3)) \<and>
   baseCount (params (snd (InitStack line_sdk nobase configured3))) = 0 \<and>
   \<not> fst (GenerateStack line_sdk (snd (InitStack line_sdk nobase configured3)))"
  by code_simp

text \<open>
  C3, amended. On an initialised generator that satisfies the invariant, \<open>InitStack\<close> with
  a base count below 1 returns \<open>false\<close>. Every \<open>InitStack\<close> that returns \<open>false\<close>
  leaves the generator uninitialised, with the random generator seeded and the spline length
  data untouched, and the \<open>GenerateStack\<close> that follows it returns \<open>false\<close>. When the
  base count was below 1, the stored parameters are the default ones and the array is the one
  from before the call; otherwise the new parameters are stored.
\<close>

theorem C3_failed_configure:
  "(stack_inv s \<and> initialized s \<and> baseCount p < 1 \<longrightarrow> \<not> fst (InitStack sdk p s)) \<and>
   (\<not> fst (InitStack sdk p s) \<longrightarrow>
      \<not> initialized (snd (InitStack sdk p s)) \<and>
      \<not> fst (GenerateStack sdk (snd (InitStack sdk p s))) \<and>
      randomGen (snd (InitStack sdk p s)) = Random_Init (randomSeed p) \<and>
      splineLengthData (snd (InitStack sdk p s)) = splineLengthData s \<and>
      (baseCount p < 1 \<longrightarrow>
         params (snd (InitStack sdk p s)) = StackParameters_default \<and>
         array (snd (InitStack sdk p s)) = array s) \<and>
      (1 \<le> baseCount p \<longrightarrow> params (snd (InitStack sdk p s)) = p))"
proof (intro conjI impI)
  assume "stack_inv s \<and> initialized s \<and> baseCount p < 1"
  then have "\<not> params_eq p (params s)" and "baseCount p < 1"
    by (auto simp: stack_inv_def params_eq_def)
  then show "\<not> fst (InitStack sdk p s)"
    by (simp add: InitStack_reject)
next
  assume f: "\<not> fst (InitStack sdk p s)"
  then have ne: "\<not> params_eq p (params s)"
    by (auto simp: InitStack_noop)
  have st: "\<not> initialized (snd (InitStack sdk p s)) \<and>
         splineLengthData (snd (InitStack sdk p s)) = splineLengthData s \<and>
         (baseCount p < 1 \<longrightarrow>
            params (snd (InitStack sdk p s)) = StackParameters_default \<and>
            array (snd (InitStack sdk p s)) = array s) \<and>
         (1 \<le> baseCount p \<longrightarrow> params (snd (InitStack sdk p s)) = p)"
  proof (cases "baseCount p < 1")
    case True
    with ne show ?thesis by (simp add: InitStack_reject)
  next
    case False
    with ne f show ?thesis
      by (auto simp: InitStack_full split: prod.splits bool.splits dest: ResizeStack_fields)
  qed
  then show "\<not> initialized (snd (InitStack sdk p s))"
    and "splineLengthData (snd (InitStack sdk p s)) = splineLengthData s"
    by simp_all
  from st show "\<not> fst (GenerateStack sdk (snd (InitStack sdk p s)))"
    by (simp add: GenerateStack_def)
  show "randomGen (snd (InitStack sdk p s)) = Random_Init (randomSeed p)"
    by (rule InitStack_randomGen)
  from st show "params (snd (InitStack sdk p s)) = p" if "1 \<le> baseCount p"
    using that by simp
  from st show "params (snd (InitStack sdk p s)) = StackParameters_default"
    and "array (snd (InitStack sdk p s)) = array s" if "baseCount p < 1"
    using that by simp_all
qed

theorem C3_failed_configure_witness:
  "stack_inv configured3 \<and> initialized configured3 \<and> baseCount nobase < 1 \<and>
   \<not> fst (InitStack line_sdk nobase configured3) \<and>
   \<not> fst (GenerateStack line_sdk (snd (InitStack line_sdk nobase configured3))) \<and>
   params (snd (InitStack line_sdk nobase configured3)) = StackParameters_default \<and>
   array (snd (InitStack line_sdk nobase configured3)) = array configured3"
proof -
  have h1: "stack_inv configured3" by code_simp
  have h2: "initialized configured3" by code_simp
  have b: "baseCount nobase < 1"
    by (simp add: nobase_def straight3_def)
  from C3_failed_configure [of configured3 nobase line_sdk] h1 h2 b
  have h: "\<not> fst (InitStack line_sdk nobase configured3)"
    by simp
  from C3_failed_configure [of configured3 nobase line_sdk] h1 h2 b h show ?thesis
    by simp
qed

section \<open>The comparison of parameters\<close>

text \<open>
  C4. \<open>curve3\<close> and \<open>straight3\<close> differ in their path, and \<^verbatim>\<open>operator ==\<close> calls them
  equal: a generator configured with \<open>straight3\<close> and then given \<open>curve3\<close> returns
  \<open>true\<close> at once and keeps the stored path \<^verbatim>\<open>nullptr\<close>.
\<close>

theorem C4_path_not_compared:
  "basePath curve3 = Some 1 \<and> basePath straight3 = None \<and> params_eq curve3 straight3 \<and>
   params configured3 = straight3 \<and>
   fst (InitStack line_sdk curve3 configured3) \<and>
   basePath (params (snd (InitStack line_sdk curve3 configured3))) = None"
  by code_simp

section \<open>The loops of \<open>GenerateStack\<close>\<close>

lemma after_draws_add [simp]: "after_draws a (after_draws b g) = after_draws (b + a) g"
  by (simp add: after_draws_def)

lemma after_draws_0 [simp]: "after_draws 0 g = g"
  by (simp add: after_draws_def)

lemma Get11_snd: "snd (Get11 sdk g) = after_draws 1 g"
  by (simp add: Get11_def after_draws_def)

lemma GenerateStack_item_snd:
  "snd (GenerateStack_item sdk p sp rd r i g) = after_draws 3 g"
  by (simp add: GenerateStack_item_def Get11_def after_draws_def Let_def split: option.splits)

lemma GenerateStack_row_eq:
  "GenerateStack_row sdk p sp rd r i g items =
     (map (\<lambda>j. fst (GenerateStack_item sdk p sp rd r (i + int j) (after_draws (3 * j) g)))
        [0..<length items],
      after_draws (3 * length items) g)"
proof (induction items arbitrary: i g)
  case Nil
  show ?case by simp
next
  case (Cons item items)
  obtain m g' where it: "GenerateStack_item sdk p sp rd r i g = (m, g')"
    by (cases "GenerateStack_item sdk p sp rd r i g")
  with GenerateStack_item_snd [of sdk p sp rd r i g] have g': "g' = after_draws 3 g" by simp
  show ?case
    by (simp add: it g' Cons.IH map_upt_Suc del: upt_Suc) (simp add: algebra_simps)
qed

lemma GenerateStack_rows_eq:
  "GenerateStack_rows sdk p sp rd k g rows =
     (map (\<lambda>r. fst (GenerateStack_row sdk p sp rd (k + int r) 0
                       (after_draws (3 * sum_list (map length (take r rows))) g) (rows ! r)))
        [0..<length rows],
      after_draws (3 * sum_list (map length rows)) g)"
proof (induction rows arbitrary: k g)
  case Nil
  show ?case by simp
next
  case (Cons row rows)
  have r: "GenerateStack_row sdk p sp rd k 0 g row =
            (fst (GenerateStack_row sdk p sp rd k 0 g row), after_draws (3 * length row) g)"
    by (simp add: GenerateStack_row_eq)
  show ?case
    apply (subst GenerateStack_rows.simps)
    apply (subst r)
    apply (simp add: Cons.IH map_upt_Suc del: upt_Suc GenerateStack_rows.simps)
    apply (simp add: algebra_simps)
    done
qed

lemma GenerateStack_row_nth:
  "i < length items \<Longrightarrow>
   fst (GenerateStack_row sdk p sp rd r k g items) ! i =
   fst (GenerateStack_item sdk p sp rd r (k + int i) (after_draws (3 * i) g))"
  by (simp add: GenerateStack_row_eq)

lemma GenerateStack_rows_nth:
  "r < length a \<Longrightarrow>
   fst (GenerateStack_rows sdk p sp rd k g a) ! r =
   fst (GenerateStack_row sdk p sp rd (k + int r) 0
          (after_draws (3 * sum_list (map length (take r a))) g) (a ! r))"
  by (simp add: GenerateStack_rows_eq)

lemma GenerateStack_rows_cell:
  assumes "r < length a" and "i < length (a ! r)"
  shows "fst (GenerateStack_rows sdk p sp rd 0 g a) ! r ! i =
         fst (GenerateStack_item sdk p sp rd (int r) (int i)
                (after_draws (3 * (sum_list (map length (take r a)) + i)) g))"
  using assms by (simp add: GenerateStack_rows_nth GenerateStack_row_nth algebra_simps)

lemma GenerateStack_rows_lengths:
  "map length (fst (GenerateStack_rows sdk p sp rd k g a)) = map length a"
  by (rule nth_equalityI) (simp_all add: GenerateStack_rows_eq GenerateStack_row_eq)

lemma fadd_zero: "fadd a (Fin 0) = a"
  by (cases a) simp_all

lemma GenerateStack_item_straight:
  assumes "basePath p = None" and "randomOffX p = Fin 0" and "randomOffZ p = Fin 0"
  shows "off (fst (GenerateStack_item sdk p sp rd r i g)) =
         Vector_xyz (Fin 0) (fmul (rowHeight p) (Float_of_Int32 r))
           (fadd (fmul sp (Float_of_Int32 i)) (fmul (fmul sp (Float_of_Int32 r)) (Fin (1/2))))"
  using assms by (simp add: GenerateStack_item_def Get11_def Let_def fadd_zero)

lemma GenerateStack_straight:
  assumes "initialized s" and "basePath (params s) = None"
  shows "GenerateStack sdk s =
     (True, s\<lparr>array := fst (GenerateStack_rows sdk (params s) (distance (params s)) (Fin 0) 0
                               (randomGen s) (array s)),
              randomGen := after_draws (3 * item_count (array s)) (randomGen s)\<rparr>)"
  using assms by (simp add: GenerateStack_def GenerateStack_rows_eq item_count_def)

lemma GenerateStack_curve:
  assumes "initialized s" and "basePath (params s) = Some c"
    and "splineLengthData s \<noteq> None \<or> sld_alloc sdk" and "sld_init sdk c"
  shows "GenerateStack sdk s =
     (True, s\<lparr>splineLengthData := Some (Some c),
              array := fst (GenerateStack_rows sdk (params s) (Fin 0) (relDistance (params s)) 0
                               (randomGen s) (array s)),
              randomGen := after_draws (3 * item_count (array s)) (randomGen s)\<rparr>)"
  using assms by (auto simp add: GenerateStack_def GenerateStack_rows_eq item_count_def)

lemma GenerateStack_True:
  "fst (GenerateStack sdk s) \<Longrightarrow> initialized s"
  by (auto simp: GenerateStack_def split: if_splits)


lemma stack_shape_before:
  assumes "stack_shape bc rc a" and "r \<le> length a"
  shows "sum_list (map length (take r a)) = items_before bc r"
proof -
  from assms(1) have m: "map length a = map (\<lambda>k. nat (bc - int k)) [0..<nat (min bc rc)]"
    by (simp add: stack_shape_def)
  from arg_cong [OF m, of length] have len: "length a = nat (min bc rc)" by simp
  have "map length (take r a) = take r (map length a)" by (simp add: take_map)
  also have "\<dots> = map (\<lambda>k. nat (bc - int k)) [0..<r]"
    using assms(2) len by (simp add: m take_map min_def)
  finally show ?thesis
    by (simp add: items_before_def interv_sum_list_conv_sum_set_nat atLeast0LessThan)
qed

lemma GenerateStack_cell:
  assumes "fst (GenerateStack sdk s)" and "r < length (array s)" and "i < length (array s ! r)"
  shows "array (snd (GenerateStack sdk s)) ! r ! i =
         fst (GenerateStack_item sdk (params s)
                (if basePath (params s) = None then distance (params s) else Fin 0)
                (if basePath (params s) = None then Fin 0 else relDistance (params s))
                (int r) (int i)
                (after_draws (3 * (sum_list (map length (take r (array s))) + i)) (randomGen s)))"
proof (cases "basePath (params s)")
  case None
  with GenerateStack_True [OF assms(1)] assms(2,3) show ?thesis
    by (simp add: GenerateStack_straight GenerateStack_rows_cell)
next
  case (Some c)
  from assms(1) Some have "splineLengthData s \<noteq> None \<or> sld_alloc sdk" and "sld_init sdk c"
    by (auto simp: GenerateStack_def split: if_splits)
  with GenerateStack_True [OF assms(1)] Some assms(2,3) show ?thesis
    by (simp add: GenerateStack_curve GenerateStack_rows_cell)
qed

lemma GenerateStack_lengths:
  "map length (array (snd (GenerateStack sdk s))) = map length (array s)"
  by (simp add: GenerateStack_def GenerateStack_rows_lengths case_prod_beta split: option.splits)

lemma fraction_in_unit:
  assumes "2 \<le> bc" and "0 \<le> r" and "0 \<le> i" and "i < bc - r"
  shows "in_unit (spline_fraction (fdiv (Fin 1) (Float_of_Int32 (bc - 1))) i r)"
proof -
  define d where "d = real_of_int (bc - 1)"
  from assms(1) have d: "0 < d" by (simp add: d_def)
  have f: "spline_fraction (fdiv (Fin 1) (Float_of_Int32 (bc - 1))) i r =
           Fin (1 / d * real_of_int i + 1 / d * (1 / 2) * real_of_int r)"
    using d by (simp add: spline_fraction_def Float_of_Int32_def d_def)
  have e: "1 / d * real_of_int i + 1 / d * (1 / 2) * real_of_int r =
           (real_of_int i + real_of_int r / 2) / d"
    by (simp add: add_divide_distrib)
  have up: "real_of_int i + real_of_int r / 2 \<le> d"
  proof -
    from assms(4) have "i + r \<le> bc - 1" by simp
    then have "real_of_int (i + r) \<le> real_of_int (bc - 1)"
      by (simp only: of_int_le_iff)
    then have "real_of_int i + real_of_int r \<le> d"
      by (simp add: d_def)
    moreover from assms(2) have "real_of_int r / 2 \<le> real_of_int r" by simp
    ultimately show ?thesis by linarith
  qed
  have lo: "0 \<le> real_of_int i + real_of_int r / 2"
    using assms(2,3) by simp
  from up lo d show ?thesis
    by (simp only: f e in_unit.simps) simp
qed

text \<open>\<open>GenerateStack\<close> keeps the invariant: it changes neither parameters nor shape.\<close>

lemma GenerateStack_fields:
  "params (snd (GenerateStack sdk s)) = params s \<and>
   initialized (snd (GenerateStack sdk s)) = initialized s"
  by (simp add: GenerateStack_def case_prod_beta split: option.splits)

lemma stack_inv_GenerateStack:
  "stack_inv s \<Longrightarrow> stack_inv (snd (GenerateStack sdk s))"
  by (simp add: stack_inv_def stack_shape_def GenerateStack_fields GenerateStack_lengths)

text \<open>
  The order of the draws. In a generator that satisfies the invariant, the item \<open>i\<close> of the
  row \<open>r\<close> is computed from the random generator after three draws for each item of the
  rows before and for each item before it in its row: rows first, items within a row.
\<close>

lemma GenerateStack_draw_order:
  assumes "stack_inv s" and "fst (GenerateStack sdk s)"
    and "r < length (array s)" and "i < length (array s ! r)"
  shows "array (snd (GenerateStack sdk s)) ! r ! i =
         fst (GenerateStack_item sdk (params s)
                (if basePath (params s) = None then distance (params s) else Fin 0)
                (if basePath (params s) = None then Fin 0 else relDistance (params s))
                (int r) (int i)
                (after_draws (3 * (items_before (baseCount (params s)) r + i)) (randomGen s)))"
proof -
  from assms(1) GenerateStack_True [OF assms(2)]
  have "stack_shape (baseCount (params s)) (rowCount (params s)) (array s)"
    by (simp add: stack_inv_def)
  from stack_shape_before [OF this, of r] assms(3)
  have "sum_list (map length (take r (array s))) = items_before (baseCount (params s)) r"
    by simp
  with GenerateStack_cell [OF assms(2,3,4)] show ?thesis by simp
qed

text \<open>
  On a new generator the layout is a function of the parameters and the SDK alone: whenever
  \<open>GenerateStack\<close> succeeds after \<open>InitStack\<close>, each item is the one computed from the
  given parameters and the seeded random generator, in the order above.
\<close>

lemma InitStack_stored:
  assumes "initialized (snd (InitStack sdk p s))" and "\<not> params_eq p (params s)"
  shows "params (snd (InitStack sdk p s)) = p"
proof (cases "baseCount p < 1")
  case True
  with assms show ?thesis by (simp add: InitStack_reject)
next
  case False
  with assms show ?thesis
    by (auto simp: InitStack_full split: prod.splits bool.splits dest: ResizeStack_fields)
qed

lemma new_generator_layout:
  assumes "fst (GenerateStack sdk (snd (InitStack sdk p CanStackGenerator_new)))"
    and "r < length (array (snd (InitStack sdk p CanStackGenerator_new)))"
    and "i < length (array (snd (InitStack sdk p CanStackGenerator_new)) ! r)"
  shows "array (snd (GenerateStack sdk (snd (InitStack sdk p CanStackGenerator_new)))) ! r ! i =
         fst (GenerateStack_item sdk p
                (if basePath p = None then distance p else Fin 0)
                (if basePath p = None then Fin 0 else relDistance p)
                (int r) (int i)
                (after_draws (3 * (items_before (baseCount p) r + i))
                   (Random_Init (randomSeed p))))"
proof -
  let ?s = "snd (InitStack sdk p CanStackGenerator_new)"
  have inv: "stack_inv ?s"
    by (rule stack_inv_InitStack [OF stack_inv_new])
  from GenerateStack_True [OF assms(1)] have i: "initialized ?s" .
  from InitStack_initialized [OF stack_inv_new i] have "1 \<le> baseCount p" by simp
  then have "\<not> params_eq p (params CanStackGenerator_new)"
    by (auto simp: params_eq_def CanStackGenerator_new_def StackParameters_default_def)
  from InitStack_stored [OF i this] have "params ?s = p" .
  with GenerateStack_draw_order [OF inv assms] InitStack_randomGen [of sdk p CanStackGenerator_new]
  show ?thesis by simp
qed

section \<open>Positions\<close>

text \<open>
  C5. In an initialised generator with no path and with both random offsets 0,
  \<open>GenerateStack\<close> succeeds, keeps the shape of the array and gives the item \<open>i\<close> of the
  row \<open>r\<close> the position \<open>(0, rowHeight * r, spacing * i + spacing * r * 0.5)\<close>, where
  \<open>spacing\<close> is \<open>distance\<close>, the base length over the base count. The random rotation does
  not enter the position, so it is left open.
\<close>

theorem C5_straight_positions:
  assumes "initialized s" and "basePath (params s) = None"
    and "randomOffX (params s) = Fin 0" and "randomOffZ (params s) = Fin 0"
    and "r < length (array s)" and "i < length (array s ! r)"
  shows "fst (GenerateStack sdk s) \<and>
         map length (array (snd (GenerateStack sdk s))) = map length (array s) \<and>
         distance (params s) =
           fdiv (baseLength (params s)) (Float_of_Int32 (baseCount (params s))) \<and>
         off (array (snd (GenerateStack sdk s)) ! r ! i) =
           Vector_xyz (Fin 0)
             (fmul (rowHeight (params s)) (Float_of_Int32 (int r)))
             (fadd (fmul (distance (params s)) (Float_of_Int32 (int i)))
                   (fmul (fmul (distance (params s)) (Float_of_Int32 (int r))) (Fin (1/2))))"
proof -
  from assms(1,2) have ok: "fst (GenerateStack sdk s)"
    by (simp add: GenerateStack_straight)
  from GenerateStack_cell [OF ok assms(5,6)] assms(2,3,4) ok show ?thesis
    by (simp add: GenerateStack_lengths GenerateStack_item_straight distance_def)
qed

theorem C5_straight_positions_witness:
  "initialized configured3 \<and> basePath (params configured3) = None \<and>
   randomOffX (params configured3) = Fin 0 \<and> randomOffZ (params configured3) = Fin 0 \<and>
   (1::nat) < length (array configured3) \<and> (1::nat) < length (array configured3 ! 1) \<and>
   fst (GenerateStack line_sdk configured3) \<and>
   off (array (snd (GenerateStack line_sdk configured3)) ! 1 ! 1) =
     Vector_xyz (Fin 0) (Fin 10) (Fin 15)"
proof -
  have h1: "initialized configured3" by code_simp
  have h2: "basePath (params configured3) = None" by code_simp
  have h3: "randomOffX (params configured3) = Fin 0" by code_simp
  have h4: "randomOffZ (params configured3) = Fin 0" by code_simp
  have h5: "(1::nat) < length (array configured3)" by code_simp
  have h6: "(1::nat) < length (array configured3 ! 1)" by code_simp
  have v: "rowHeight (params configured3) = Fin 10" "distance (params configured3) = Fin 10"
    by code_simp+
  from C5_straight_positions [OF h1 h2 h3 h4 h5 h6] h1 h2 h3 h4 h5 h6 show ?thesis
    by (simp add: v Float_of_Int32_def)
qed

text \<open>
  C6. With one item in the base row and a path, \<open>GenerateStack\<close> divides by zero: the
  relative distance is \<^verbatim>\<open>+inf\<close>, the fraction given to \<^verbatim>\<open>UniformToNatural\<close> for the only
  item is NaN, and with the SDK \<open>line_sdk\<close> its position is NaN in every component.
\<close>

theorem C6_single_item_on_path:
  "baseCount curve1 = 1 \<and> basePath curve1 = Some 1 \<and>
   relDistance curve1 = PInf \<and> spline_fraction (relDistance curve1) 0 0 = NaN \<and>
   fst (InitStack line_sdk curve1 CanStackGenerator_new) \<and>
   fst (GenerateStack line_sdk (snd (InitStack line_sdk curve1 CanStackGenerator_new))) \<and>
   map (map off)
     (array (snd (GenerateStack line_sdk (snd (InitStack line_sdk curve1 CanStackGenerator_new)))))
     = [[Vector_xyz NaN NaN NaN]]"
  by code_simp

text \<open>
  C10, as the specification states it, does not hold: there are no parameters with a base
  count of at least 2 and no item \<open>i\<close> of a row \<open>r\<close> of the triangular array whose fraction
  is outside the interval from 0 to 1.
\<close>

theorem C10_fraction_outside_counterexample:
  "\<not> (\<exists>p r i. 2 \<le> baseCount p \<and> 0 \<le> r \<and> r < min (baseCount p) (rowCount p) \<and>
              0 \<le> i \<and> i < baseCount p - r \<and>
              \<not> in_unit (spline_fraction (relDistance p) i r))"
  by (auto simp: relDistance_def dest: fraction_in_unit)

text \<open>
  C10, amended. In an initialised generator with a base count of at least 2, the fraction
  given to \<^verbatim>\<open>UniformToNatural\<close> lies between 0 and 1 for every item of the array.
\<close>

theorem C10_fraction_within_unit:
  assumes "stack_inv s" and "initialized s" and "2 \<le> baseCount (params s)"
    and "r < length (array s)" and "i < length (array s ! r)"
  shows "in_unit (spline_fraction (relDistance (params s)) (int i) (int r))"
proof -
  from assms(1,2) have sh: "stack_shape (baseCount (params s)) (rowCount (params s)) (array s)"
    and bc: "1 \<le> baseCount (params s)"
    by (simp_all add: stack_inv_def)
  from stack_shape_facts(2) [OF sh bc] assms(4)
  have "length (array s ! r) = nat (baseCount (params s) - int r)" by simp
  with assms(5) have "int i < baseCount (params s) - int r" by simp
  with assms(3) show ?thesis
    by (simp add: relDistance_def fraction_in_unit)
qed

theorem C10_fraction_within_unit_witness:
  "stack_inv configured_curve3 \<and> initialized configured_curve3 \<and>
   2 \<le> baseCount (params configured_curve3) \<and>
   (1::nat) < length (array configured_curve3) \<and>
   (1::nat) < length (array configured_curve3 ! 1) \<and>
   in_unit (spline_fraction (relDistance (params configured_curve3)) 1 1)"
proof -
  have h1: "stack_inv configured_curve3" by code_simp
  have h2: "initialized configured_curve3" by code_simp
  have h3: "2 \<le> baseCount (params configured_curve3)" by code_simp
  have h4: "(1::nat) < length (array configured_curve3)" by code_simp
  have h5: "(1::nat) < length (array configured_curve3 ! 1)" by code_simp
  from C10_fraction_within_unit [OF h1 h2 h3 h4 h5] h1 h2 h3 h4 h5 show ?thesis
    by simp
qed

section \<open>A generator that is used again\<close>

text \<open>
  C2. The same parameters \<open>curve3\<close> give two layouts. A generator that has built the stack
  of \<open>straight3\<close> and is then given \<open>curve3\<close> builds the straight stack again, at
  \<open>x = 0\<close>; a new generator given \<open>curve3\<close> builds the stack on the path, at
  \<open>x = 100\<close>. Both calls of \<open>InitStack\<close> and both calls of \<open>GenerateStack\<close> succeed.
\<close>

theorem C2_same_parameters_two_layouts:
  "fst (GenerateStack line_sdk configured3) \<and>
   fst (InitStack line_sdk curve3 (snd (GenerateStack line_sdk configured3))) \<and>
   fst (GenerateStack line_sdk
          (snd (InitStack line_sdk curve3 (snd (GenerateStack line_sdk configured3))))) \<and>
   map (map off)
     (array (snd (GenerateStack line_sdk
        (snd (InitStack line_sdk curve3 (snd (GenerateStack line_sdk configured3)))))))
   = [[Vector_xyz (Fin 0) (Fin 0) (Fin 0), Vector_xyz (Fin 0) (Fin 0) (Fin 10),
       Vector_xyz (Fin 0) (Fin 0) (Fin 20)],
      [Vector_xyz (Fin 0) (Fin 10) (Fin 5), Vector_xyz (Fin 0) (Fin 10) (Fin 15)],
      [Vector_xyz (Fin 0) (Fin 20) (Fin 10)]] \<and>
   fst (InitStack line_sdk curve3 CanStackGenerator_new) \<and>
   fst (GenerateStack line_sdk (snd (InitStack line_sdk curve3 CanStackGenerator_new))) \<and>
   map (map off)
     (array (snd (GenerateStack line_sdk (snd (InitStack line_sdk curve3 CanStackGenerator_new)))))
   = [[Vector_xyz (Fin 100) (Fin 0) (Fin 0), Vector_xyz (Fin 100) (Fin 0) (Fin 25),
       Vector_xyz (Fin 100) (Fin 0) (Fin 50)],
      [Vector_xyz (Fin 100) (Fin 10) (Fin (25/2)), Vector_xyz (Fin 100) (Fin 10) (Fin (75/2))],
      [Vector_xyz (Fin 100) (Fin 20) (Fin 25)]]"
  by code_simp

section \<open>The loops of \<open>BuildStackGeometry\<close>\<close>















text \<open>
  In curve mode \<open>GenerateStack\<close> stores each matrix multiplied from the left by the global
  matrix of the path.
\<close>

lemma GenerateStack_item_on_path:
  "basePath p = Some c \<Longrightarrow>
   \<exists>m. fst (GenerateStack_item sdk p sp rd r i g) = Matrix_mul (GetMg sdk c) m"
  by (simp add: GenerateStack_item_def Get11_def Let_def) (rule exI, rule refl)



end
